theory Spec2Isabelle
  imports Complex_Main "HOL-Library.AList"
begin

section \<open>The partner-dashboard relay (src/index.js)\<close>

text \<open>
  The relay has one route with logic, \<^verbatim>\<open>GET /partner-dashboard/offers\<close>. Its handler
  validates two query parameters, fetches a list of offers from the upstream provider,
  fetches one detail record per offer, merges two fields of each detail record onto its
  offer and answers with a JSON envelope.

  The handler is embedded as a function of everything it reads: the query, the process
  configuration, the upstream (what each \<^verbatim>\<open>fetch\<close> settles with and when) and the clock.
  It returns everything it does: the reply it sends and the requests it issues. Logging
  (\<^verbatim>\<open>console.error\<close>, the request log) changes no reply and is left out, and so are the
  other routes (\<^verbatim>\<open>/health\<close>, the 404 and error handlers), which share nothing with this
  one. The repository also holds an earlier, reduced variant of the same server (an API-key
  check, no status probe, no check of \<^verbatim>\<open>type\<close>, the upstream status passed through); the
  specification follows \<^verbatim>\<open>src/index.js\<close>, and so does this theory.
\<close>

subsection \<open>JavaScript values\<close>

text \<open>
  What \<^verbatim>\<open>JSON.parse\<close> produces. An object is the list of its own properties in
  enumeration order. A number is the value of the double; the handler only ever tests
  one for being zero. Strings are lists of \<^typ>\<open>char\<close>, which agrees with JavaScript's
  strings on ASCII text; the handler's own literals are ASCII. The value \<^verbatim>\<open>undefined\<close>
  is \<^term>\<open>None\<close> of \<open>json option\<close>.
\<close>

datatype json =
    JNull
  | JBool bool
  | JNum rat
  | JStr string
  | JArr "json list"
  | JObj "(string \<times> json) list"

text \<open>The exceptions the handler can meet; \<open>FetchError\<close> covers every rejection of
  \<^verbatim>\<open>fetch\<close> (network failure, timeout, failed module import).\<close>

datatype js_error = TypeError | SyntaxError | FetchError

text \<open>Truthiness, as \<^verbatim>\<open>!x\<close>, \<^verbatim>\<open>x && y\<close> and \<^verbatim>\<open>x || y\<close> test it.\<close>

fun truthy :: "json \<Rightarrow> bool" where
  "truthy JNull = False"
| "truthy (JBool b) = b"
| "truthy (JNum n) = (n \<noteq> 0)"
| "truthy (JStr s) = (s \<noteq> [])"
| "truthy (JArr xs) = True"
| "truthy (JObj kvs) = True"

text \<open>\<^verbatim>\<open>v || d\<close> where \<open>v\<close> may be \<^verbatim>\<open>undefined\<close>.\<close>

definition or_default :: "json option \<Rightarrow> json \<Rightarrow> json" where
  "or_default v d = (case v of None \<Rightarrow> d | Some x \<Rightarrow> if truthy x then x else d)"

text \<open>
  Reading a property, for the four keys the handler reads (\<^verbatim>\<open>offers\<close>,
  \<^verbatim>\<open>network_offer_id\<close>, \<^verbatim>\<open>default_payout\<close>, \<^verbatim>\<open>currency\<close>). \<open>field v k\<close> is
  \<^verbatim>\<open>v.k\<close> on a value other than \<^verbatim>\<open>null\<close>: the own property of an object, and
  \<^verbatim>\<open>undefined\<close> on every other value (no prototype defines these keys). On \<^verbatim>\<open>null\<close>
  the read throws a TypeError.
\<close>

fun field :: "json \<Rightarrow> string \<Rightarrow> json option" where
  "field (JObj kvs) k = map_of kvs k"
| "field v k = None"

definition get_prop :: "json \<Rightarrow> string \<Rightarrow> js_error + json option" where
  "get_prop v k = (if v = JNull then Inl TypeError else Inr (field v k))"

text \<open>Decimal digits of an index, for the property names of arrays and strings.\<close>

function decimal :: "nat \<Rightarrow> string" where
  "decimal n =
     (if n < 10 then [''0123456789'' ! n]
      else decimal (n div 10) @ [''0123456789'' ! (n mod 10)])"
  by pat_completeness auto
termination
  by (relation "measure id") auto

text \<open>
  The own enumerable properties that \<^verbatim>\<open>{...x}\<close> copies, in order: those of an object,
  the indexed elements of an array, the indexed characters of a string, none otherwise.
\<close>

fun spread :: "json \<Rightarrow> (string \<times> json) list" where
  "spread (JObj kvs) = kvs"
| "spread (JArr xs) = zip (map decimal [0..<length xs]) xs"
| "spread (JStr s) = zip (map decimal [0..<length s]) (map (\<lambda>c. JStr [c]) s)"
| "spread v = []"

text \<open>\<^verbatim>\<open>s.includes(t)\<close> on strings: \<open>t\<close> occurs in \<open>s\<close> as a contiguous piece.\<close>

fun str_includes :: "string \<Rightarrow> string \<Rightarrow> bool" where
  "str_includes [] t = (t = [])"
| "str_includes (c # s) t = (take (length t) (c # s) = t \<or> str_includes s t)"

subsection \<open>The request, the upstream and the reply\<close>

text \<open>
  A value of \<^verbatim>\<open>req.query\<close>, as the query parser of Express builds it: a string for a
  parameter given once (the empty string for \<^verbatim>\<open>?type=\<close>), an array for a repeated parameter
  (\<^verbatim>\<open>?affiliate_id=a&affiliate_id=b\<close>) and an object for the bracket syntax
  (\<^verbatim>\<open>?affiliate_id[a]=1\<close>). A parameter that is not given is \<^verbatim>\<open>undefined\<close>.
\<close>

datatype qvalue =
    QStr string
  | QArr "qvalue list"
  | QObj "(string \<times> qvalue) list"

record query =
  type :: "qvalue option"
  affiliate_id :: "qvalue option"

text \<open>Truthiness: of these values only the empty string is falsy.\<close>

fun q_truthy :: "qvalue \<Rightarrow> bool" where
  "q_truthy (QStr s) = (s \<noteq> [])"
| "q_truthy (QArr xs) = True"
| "q_truthy (QObj kvs) = True"

text \<open>
  \<^verbatim>\<open>v.includes(t)\<close> for a string \<open>t\<close>. On a string it searches for \<open>t\<close>; on an array it
  asks whether an element is the string \<open>t\<close>; on an object \<^verbatim>\<open>v.includes\<close> is no function
  and the call throws a TypeError.
\<close>

fun q_includes :: "qvalue \<Rightarrow> string \<Rightarrow> js_error + bool" where
  "q_includes (QStr s) t = Inr (str_includes s t)"
| "q_includes (QArr xs) t = Inr (QStr t \<in> set xs)"
| "q_includes (QObj kvs) t = Inl TypeError"

text \<open>
  The string a template literal makes of a value: a string as it is, an array as its
  elements joined with commas, an object as \<^verbatim>\<open>[object Object]\<close>.
\<close>

fun join_comma :: "string list \<Rightarrow> string" where
  "join_comma [] = []"
| "join_comma [x] = x"
| "join_comma (x # y # ys) = x @ '','' @ join_comma (y # ys)"

fun q_to_string :: "qvalue \<Rightarrow> string" where
  "q_to_string (QStr s) = s"
| "q_to_string (QArr xs) = join_comma (map q_to_string xs)"
| "q_to_string (QObj kvs) = ''[object Object]''"

text \<open>The value as it stands inside a reply body.\<close>

fun q_json :: "qvalue \<Rightarrow> json" where
  "q_json (QStr s) = JStr s"
| "q_json (QArr xs) = JArr (map q_json xs)"
| "q_json (QObj kvs) = JObj (map (map_prod id q_json) kvs)"

text \<open>The arguments of one \<^verbatim>\<open>fetch\<close> call; a header whose value is \<^verbatim>\<open>undefined\<close> has
  \<^term>\<open>None\<close>.\<close>

record fetch_request =
  url :: string
  headers :: "(string \<times> string option) list"
  timeout :: nat

text \<open>
  A response of the upstream: its status, what \<^verbatim>\<open>.text()\<close> gives and what \<^verbatim>\<open>.json()\<close>
  gives (a SyntaxError when the body is not JSON). \<^verbatim>\<open>response.ok\<close> holds for the statuses
  200 to 299.
\<close>

record fetch_response =
  res_status :: nat
  res_text :: string
  res_json :: "js_error + json"

definition ok :: "fetch_response \<Rightarrow> bool" where
  "ok r = (200 \<le> res_status r \<and> res_status r < 300)"

datatype fetch_result = Rejects js_error | Resolves fetch_response

text \<open>
  Everything outside the handler. \<open>fetch\<close> is the upstream: what a request settles
  with. \<open>settle_time i\<close> is the time at which the detail lookup of the offer at position
  \<open>i\<close> settles. \<open>ToString\<close> is the conversion a template literal applies to a value,
  \<open>stack\<close> is \<^verbatim>\<open>err.stack\<close>, and \<open>now\<close> is \<^verbatim>\<open>new Date().toISOString()\<close>.
\<close>

record env =
  EFLOW_ADMIN_API_KEY :: "string option"
  NODE_ENV :: "string option"
  fetch :: "fetch_request \<Rightarrow> fetch_result"
  settle_time :: "nat \<Rightarrow> nat"
  ToString :: "json option \<Rightarrow> string"
  stack :: "js_error \<Rightarrow> string"
  now :: string

text \<open>What \<^verbatim>\<open>res.status(c).json(b)\<close> sends.\<close>

record reply =
  code :: nat
  body :: json

text \<open>
  An execution of the handler: the reply, if one is sent, the requests issued to the
  upstream, in the order of issue, and the exception, if one is thrown outside every
  \<^verbatim>\<open>try\<close>. In that case the handler's promise rejects and the handler itself sends no
  reply; what becomes of the request then is the framework's business.
\<close>

record outcome =
  sent :: "reply option"
  fetched :: "fetch_request list"
  uncaught :: "js_error option"

subsection \<open>Promise.all\<close>

text \<open>
  A promise of the detail fan-out either rejects before its first \<^verbatim>\<open>await\<close> (\<open>Inl\<close>) or
  fulfils with a value once its lookup settles (\<open>Inr\<close>). \<^verbatim>\<open>Promise.all\<close> rejects with
  the first rejection. Otherwise it starts from one empty slot per promise and, as the
  promises fulfil in the order of their settling times, stores each value in the slot of
  its promise; it resolves with the slots when all are filled (\<^term>\<open>None\<close> stands for
  never resolving, which the properties below exclude).
\<close>

fun first_rejection :: "(js_error + 'a) list \<Rightarrow> js_error option" where
  "first_rejection [] = None"
| "first_rejection (Inl e # ps) = Some e"
| "first_rejection (Inr v # ps) = first_rejection ps"

fun fulfilled :: "(js_error + 'a) list \<Rightarrow> 'a list" where
  "fulfilled [] = []"
| "fulfilled (Inl e # ps) = fulfilled ps"
| "fulfilled (Inr v # ps) = v # fulfilled ps"

definition fill_slot :: "nat \<times> 'a \<Rightarrow> 'a option list \<Rightarrow> 'a option list" where
  "fill_slot p slots = slots[fst p := Some (snd p)]"

definition Promise_all :: "(nat \<Rightarrow> nat) \<Rightarrow> (js_error + 'a) list \<Rightarrow> js_error + 'a list option" where
  "Promise_all settle ps =
     (case first_rejection ps of
        Some e \<Rightarrow> Inl e
      | None \<Rightarrow>
          (let vs = fulfilled ps;
               completions = sort_key (\<lambda>p. settle (fst p)) (List.enumerate 0 vs)
           in Inr (those (fold fill_slot completions (replicate (length vs) None)))))"

subsection \<open>The handler of GET /partner-dashboard/offers\<close>

text \<open>The bodies of the replies, as the object literals of the source build them.\<close>

definition operational_body :: json where
  "operational_body =
     JObj [(''status'', JStr ''success''),
           (''message'', JStr ''Partner dashboard backend is operational'')]"

definition invalid_affiliate_body :: "json \<Rightarrow> json" where
  "invalid_affiliate_body received =
     JObj [(''error'', JStr ''Invalid request''),
           (''message'', JStr ''Valid affiliate_id is required''),
           (''details'',
              JObj [(''received'', received),
                    (''expected'', JStr ''Non-empty string without special characters'')])]"

definition invalid_type_body :: json where
  \<open>invalid_type_body =
     JObj [(''error'', JStr ''Invalid request''),
           (''message'', JStr ''Type must be either "top" or "latest" if provided'')]\<close>

definition bad_gateway_body :: "string \<Rightarrow> json" where
  "bad_gateway_body errorText =
     JObj [(''error'', JStr ''Bad Gateway''),
           (''message'', JStr ''Failed to fetch offers from Everflow''),
           (''details'', JStr errorText)]"

definition success_body :: "json list \<Rightarrow> string \<Rightarrow> json" where
  "success_body enrichedOffers timestamp =
     JObj [(''status'', JStr ''success''),
           (''data'',
              JObj [(''offers'', JArr enrichedOffers),
                    (''count'', JNum (of_nat (length enrichedOffers))),
                    (''_metadata'',
                       JObj [(''source'', JStr ''Everflow API''),
                             (''enrichment'', JStr ''payout_and_currency''),
                             (''timestamp'', JStr timestamp)])])]"

text \<open>
  The body of the 500 reply. Its \<^verbatim>\<open>details\<close> is \<^verbatim>\<open>err.stack\<close> in development and
  \<^verbatim>\<open>undefined\<close> otherwise, and \<^verbatim>\<open>res.json\<close> leaves an undefined property out.
\<close>

definition internal_error_body :: "env \<Rightarrow> js_error \<Rightarrow> json" where
  "internal_error_body e err =
     JObj ([(''error'', JStr ''Internal Server Error''),
            (''message'', JStr ''An unexpected error occurred'')] @
           (if NODE_ENV e = Some ''development'' then [(''details'', JStr (stack e err))]
            else []))"

text \<open>The two upstream requests.\<close>

definition api_headers :: "env \<Rightarrow> (string \<times> string option) list" where
  "api_headers e =
     [(''X-Eflow-API-Key'', EFLOW_ADMIN_API_KEY e),
      (''Content-Type'', Some ''application/json'')]"

definition list_url :: "string \<Rightarrow> qvalue option \<Rightarrow> string" where
  "list_url aid ty =
     (let url = ''https://api.eflow.team/v1/networks/offers?affiliate_id='' @ aid @
                ''&limit=10&status=active&visibility=public''
      in if ty = Some (QStr ''top'') then url @ ''&sort_by=payout&sort_direction=desc''
         else if ty = Some (QStr ''latest'') then
           url @ ''&sort_by=created_at&sort_direction=desc''
         else url)"

definition list_request :: "env \<Rightarrow> string \<Rightarrow> qvalue option \<Rightarrow> fetch_request" where
  "list_request e aid ty =
     \<lparr>url = list_url aid ty, headers = api_headers e, timeout = 5000\<rparr>"

definition detail_url :: "env \<Rightarrow> json option \<Rightarrow> string \<Rightarrow> string" where
  "detail_url e offerId aid =
     ''https://api.eflow.team/v1/networks/offers/'' @ ToString e offerId @
     ''?affiliate_id='' @ aid"

definition detail_request :: "env \<Rightarrow> json option \<Rightarrow> string \<Rightarrow> fetch_request" where
  "detail_request e offerId aid =
     \<lparr>url = detail_url e offerId aid, headers = api_headers e, timeout = 3000\<rparr>"

text \<open>
  The object literal \<^verbatim>\<open>{...offer, default_payout: dp || 'N/A', currency: cur || ''}\<close>:
  the properties of the offer, then the two assignments, each replacing the property in
  place when the offer has it and appending it otherwise.
\<close>

definition merge_detail :: "json \<Rightarrow> json option \<Rightarrow> json option \<Rightarrow> json" where
  "merge_detail offer dp cur =
     JObj (AList.update ''currency'' (or_default cur (JStr ''''))
            (AList.update ''default_payout'' (or_default dp (JStr ''N/A'')) (spread offer)))"

text \<open>
  What the detail lookup of a request ends in, inside the callback's \<^verbatim>\<open>try\<close>: the value
  the callback returns. Every exception in it (a rejected fetch, a body that is not JSON,
  a property read on \<^verbatim>\<open>null\<close>) is caught and gives the offer back as it is, and so does
  a response that is not ok.
\<close>

definition enrich_try :: "env \<Rightarrow> fetch_request \<Rightarrow> json \<Rightarrow> json" where
  "enrich_try e rq offer =
     (case fetch e rq of
        Rejects err \<Rightarrow> offer
      | Resolves detailRes \<Rightarrow>
          if \<not> ok detailRes then offer
          else (case res_json detailRes of
                  Inl err \<Rightarrow> offer
                | Inr detailData \<Rightarrow>
                    (case get_prop detailData ''default_payout'' of
                       Inl err \<Rightarrow> offer
                     | Inr dp \<Rightarrow>
                         (case get_prop detailData ''currency'' of
                            Inl err \<Rightarrow> offer
                          | Inr cur \<Rightarrow> merge_detail offer dp cur))))"

text \<open>
  The callback of \<^verbatim>\<open>offers.map\<close>. Reading \<^verbatim>\<open>offer.network_offer_id\<close> stands before the
  \<^verbatim>\<open>try\<close>: on a \<^verbatim>\<open>null\<close> offer the promise rejects and no request is issued.
  Otherwise the result is the request issued and the value the promise fulfils with.
\<close>

definition enrich :: "env \<Rightarrow> string \<Rightarrow> json \<Rightarrow> js_error + (fetch_request \<times> json)" where
  "enrich e aid offer =
     (case get_prop offer ''network_offer_id'' of
        Inl err \<Rightarrow> Inl err
      | Inr offerId \<Rightarrow>
          (let rq = detail_request e offerId aid
           in Inr (rq, enrich_try e rq offer)))"

definition internal_error :: "env \<Rightarrow> js_error \<Rightarrow> fetch_request list \<Rightarrow> outcome" where
  "internal_error e err rqs =
     \<lparr>sent = Some \<lparr>code = 500, body = internal_error_body e err\<rparr>, fetched = rqs, uncaught = None\<rparr>"

definition status_probe :: outcome where
  "status_probe = \<lparr>sent = Some \<lparr>code = 200, body = operational_body\<rparr>, fetched = [], uncaught = None\<rparr>"

text \<open>
  The part of the handler after a list response that is ok: parse the body, take
  \<^verbatim>\<open>data.offers || []\<close>, map the callback over it (a TypeError unless it is an array), wait
  for all promises and send the envelope. Every exception ends in the outer \<^verbatim>\<open>catch\<close>.
\<close>

definition enrich_and_send :: "env \<Rightarrow> string \<Rightarrow> fetch_request \<Rightarrow> fetch_response \<Rightarrow> outcome" where
  "enrich_and_send e aid rq response =
     (case res_json response of
        Inl err \<Rightarrow> internal_error e err [rq]
      | Inr data \<Rightarrow>
          (case get_prop data ''offers'' of
             Inl err \<Rightarrow> internal_error e err [rq]
           | Inr v \<Rightarrow>
               (case or_default v (JArr []) of
                  JArr offers \<Rightarrow>
                    (let ps = map (enrich e aid) offers;
                         rqs = rq # map fst (fulfilled ps)
                     in case Promise_all (settle_time e) (map (map_sum id snd) ps) of
                          Inl err \<Rightarrow> internal_error e err rqs
                        | Inr None \<Rightarrow> \<lparr>sent = None, fetched = rqs, uncaught = None\<rparr>
                        | Inr (Some enrichedOffers) \<Rightarrow>
                            \<lparr>sent = Some \<lparr>code = 200,
                                           body = success_body enrichedOffers (now e)\<rparr>,
                             fetched = rqs, uncaught = None\<rparr>)
                | offers \<Rightarrow> internal_error e TypeError [rq])))"

text \<open>
  The handler, rule by rule as the source has them. \<^verbatim>\<open>!affiliate_id\<close> holds for an absent
  and for an empty \<^verbatim>\<open>affiliate_id\<close>, and \<^verbatim>\<open>type && ...\<close> fails for an absent and for an
  empty \<^verbatim>\<open>type\<close>. The call \<^verbatim>\<open>affiliate_id.includes('{')\<close> stands outside the \<^verbatim>\<open>try\<close>.
  \<^verbatim>\<open>['top', 'latest'].includes(type)\<close> holds for these two strings only. The URLs take
  \<^verbatim>\<open>affiliate_id\<close> through a template literal. A reply without an explicit status has status
  200.
\<close>

definition handler :: "env \<Rightarrow> query \<Rightarrow> outcome" where
  "handler e req =
     (case affiliate_id req of
        None \<Rightarrow> status_probe
      | Some affiliate \<Rightarrow>
          if \<not> q_truthy affiliate then status_probe
          else
            (case q_includes affiliate ''{'' of
               Inl err \<Rightarrow> \<lparr>sent = None, fetched = [], uncaught = Some err\<rparr>
             | Inr found \<Rightarrow>
                 if found then
                   \<lparr>sent = Some \<lparr>code = 400,
                                  body = invalid_affiliate_body (q_json affiliate)\<rparr>,
                    fetched = [], uncaught = None\<rparr>
                 else if (case type req of
                            None \<Rightarrow> False
                          | Some ty \<Rightarrow>
                              q_truthy ty \<and> ty \<notin> set [QStr ''top'', QStr ''latest'']) then
                   \<lparr>sent = Some \<lparr>code = 400, body = invalid_type_body\<rparr>,
                    fetched = [], uncaught = None\<rparr>
                 else
                   (let aid = q_to_string affiliate;
                        rq = list_request e aid (type req)
                    in case fetch e rq of
                         Rejects err \<Rightarrow> internal_error e err [rq]
                       | Resolves response \<Rightarrow>
                           if \<not> ok response then
                             \<lparr>sent = Some \<lparr>code = 502,
                                            body = bad_gateway_body (res_text response)\<rparr>,
                              fetched = [rq], uncaught = None\<rparr>
                           else enrich_and_send e aid rq response)))"

subsection \<open>Vocabulary of the statements\<close>

text \<open>The detail request the callback issues for an offer other than \<^verbatim>\<open>null\<close>.\<close>

definition offer_request :: "env \<Rightarrow> string \<Rightarrow> json \<Rightarrow> fetch_request" where
  "offer_request e aid offer = detail_request e (field offer ''network_offer_id'') aid"

subsection \<open>A concrete upstream\<close>

text \<open>
  An upstream with three offers for the affiliate \<^verbatim>\<open>af123\<close>. The detail lookup of offer 1
  succeeds, that of offer 2 fails with a network error, and that of offer 3, which has a
  currency of its own in the list, succeeds with a payout of zero. Every other request is
  answered with a server error. The lookups settle in the reverse of the list order.
  \<open>demo_ToString\<close> agrees with JavaScript on strings and on the small natural numbers used
  as ids here.
\<close>

definition demo_ToString :: "json option \<Rightarrow> string" where
  "demo_ToString v =
     (case v of
        Some (JStr s) \<Rightarrow> s
      | Some (JNum n) \<Rightarrow> decimal (nat \<lfloor>n\<rfloor>)
      | _ \<Rightarrow> ''undefined'')"

definition demo_offer1 :: json where
  "demo_offer1 = JObj [(''network_offer_id'', JNum 1), (''name'', JStr ''Alpha'')]"

definition demo_offer2 :: json where
  "demo_offer2 = JObj [(''network_offer_id'', JNum 2), (''name'', JStr ''Beta'')]"

definition demo_offer3 :: json where
  "demo_offer3 =
     JObj [(''network_offer_id'', JNum 3), (''name'', JStr ''Gamma''),
           (''currency'', JStr ''EUR'')]"


definition demo_detail1 :: fetch_response where
  "demo_detail1 =
     \<lparr>res_status = 200, res_text = ''detail of offer 1'',
      res_json = Inr (JObj [(''default_payout'', JNum 12), (''currency'', JStr ''USD'')])\<rparr>"

definition demo_detail3 :: fetch_response where
  "demo_detail3 =
     \<lparr>res_status = 200, res_text = ''detail of offer 3'',
      res_json = Inr (JObj [(''default_payout'', JNum 0), (''currency'', JStr ''GBP'')])\<rparr>"

definition demo_list :: fetch_response where
  "demo_list =
     \<lparr>res_status = 200, res_text = ''list of offers'',
      res_json = Inr (JObj [(''offers'', JArr [demo_offer1, demo_offer2, demo_offer3])])\<rparr>"

definition failing_upstream :: "nat \<Rightarrow> fetch_request \<Rightarrow> fetch_result" where
  "failing_upstream st rq =
     Resolves \<lparr>res_status = st, res_text = ''upstream exploded'', res_json = Inl SyntaxError\<rparr>"

definition starts_with :: "string \<Rightarrow> string \<Rightarrow> bool" where
  "starts_with s p = (take (length p) s = p)"

definition demo_fetch :: "fetch_request \<Rightarrow> fetch_result" where
  "demo_fetch rq =
     (if url rq = ''https://api.eflow.team/v1/networks/offers/1?affiliate_id=af123'' then
        Resolves demo_detail1
      else if url rq = ''https://api.eflow.team/v1/networks/offers/2?affiliate_id=af123'' then
        Rejects FetchError
      else if url rq = ''https://api.eflow.team/v1/networks/offers/3?affiliate_id=af123'' then
        Resolves demo_detail3
      else if starts_with (url rq)
                ''https://api.eflow.team/v1/networks/offers?affiliate_id=af123&'' then
        Resolves demo_list
      else failing_upstream 500 rq)"

definition demo_settle :: "nat \<Rightarrow> nat" where
  "demo_settle i = 10 - i"

definition demo_stack :: "js_error \<Rightarrow> string" where
  "demo_stack err = ''Error at handler (index.js)''"

definition demo_env :: env where
  "demo_env =
     \<lparr>EFLOW_ADMIN_API_KEY = Some ''secret'', NODE_ENV = Some ''production'',
      fetch = demo_fetch, settle_time = demo_settle, ToString = demo_ToString,
      stack = demo_stack, now = ''2024-01-01T00:00:00.000Z''\<rparr>"

text \<open>The three offers as this upstream has the handler enrich them.\<close>

definition demo_enriched :: "json list" where
  "demo_enriched =
     [JObj [(''network_offer_id'', JNum 1), (''name'', JStr ''Alpha''),
            (''default_payout'', JNum 12), (''currency'', JStr ''USD'')],
      JObj [(''network_offer_id'', JNum 2), (''name'', JStr ''Beta'')],
      JObj [(''network_offer_id'', JNum 3), (''name'', JStr ''Gamma''),
            (''currency'', JStr ''GBP''), (''default_payout'', JStr ''N/A'')]]"

definition demo_req :: query where
  "demo_req = \<lparr>type = Some (QStr ''top''), affiliate_id = Some (QStr ''af123'')\<rparr>"

section \<open>Properties\<close>

text \<open>The equation of \<open>decimal\<close> is unfolded only where a proof asks for it.\<close>

declare decimal.simps [simp del]

subsection \<open>String search\<close>

text \<open>Searching for a string of one character is membership of the character.\<close>

lemma str_includes_single: "str_includes s [c] = (c \<in> set s)"
  by (induction s) auto

subsection \<open>Promise.all resolves with the values by position\<close>

text \<open>
  Filling a slot changes no other slot, so after the completions of all promises, in
  whatever order, slot \<open>i\<close> holds the value of promise \<open>i\<close>.
\<close>

lemma length_fill_slot: "length (fill_slot p slots) = length slots"
  by (simp add: fill_slot_def)

lemma nth_fill_slot_other: "j \<noteq> fst p \<Longrightarrow> fill_slot p slots ! j = slots ! j"
  by (simp add: fill_slot_def)

lemma nth_fill_slot_same: "j < length slots \<Longrightarrow> fill_slot (j, v) slots ! j = Some v"
  by (simp add: fill_slot_def)

lemma fold_fill_slot_length: "length (fold fill_slot cs slots) = length slots"
  by (induction cs arbitrary: slots) (simp_all add: length_fill_slot)

lemma fold_fill_slot_untouched:
  "j \<notin> fst ` set cs \<Longrightarrow> fold fill_slot cs slots ! j = slots ! j"
  by (induction cs arbitrary: slots) (simp_all add: nth_fill_slot_other)

lemma fold_fill_slot_nth:
  assumes "j < length slots" and "(j, v) \<in> set cs"
    and "\<forall>w. (j, w) \<in> set cs \<longrightarrow> w = v"
  shows "fold fill_slot cs slots ! j = Some v"
  using assms
proof (induction cs arbitrary: slots)
  case Nil
  then show ?case by simp
next
  case (Cons p cs)
  have later: "\<forall>w. (j, w) \<in> set cs \<longrightarrow> w = v"
    using Cons.prems(3) by simp
  have len: "j < length (fill_slot p slots)"
    using Cons.prems(1) by (simp add: length_fill_slot)
  show ?case
  proof (cases "j \<in> fst ` set cs")
    case True
    then obtain w where w: "(j, w) \<in> set cs" by force
    with later have mem: "(j, v) \<in> set cs" by blast
    have "fold fill_slot cs (fill_slot p slots) ! j = Some v"
      by (rule Cons.IH[OF len mem later])
    then show ?thesis by simp
  next
    case False
    then have "(j, v) \<notin> set cs" by force
    with Cons.prems(2) have p: "p = (j, v)" by simp
    have "fold fill_slot cs (fill_slot p slots) ! j = fill_slot p slots ! j"
      using False by (rule fold_fill_slot_untouched)
    also have "\<dots> = Some v"
      using Cons.prems(1) p by (simp add: nth_fill_slot_same)
    finally show ?thesis by simp
  qed
qed

lemma those_map_Some: "those (map Some vs) = Some vs"
  by (induction vs) simp_all

lemma fill_all_slots:
  assumes "set cs = set (List.enumerate 0 vs)"
  shows "fold fill_slot cs (replicate (length vs) None) = map Some vs"
proof (rule nth_equalityI)
  show "length (fold fill_slot cs (replicate (length vs) None)) = length (map Some vs)"
    by (simp add: fold_fill_slot_length)
next
  fix j
  assume "j < length (fold fill_slot cs (replicate (length vs) None))"
  then have j: "j < length vs" by (simp add: fold_fill_slot_length)
  have "fold fill_slot cs (replicate (length vs) None) ! j = Some (vs ! j)"
  proof (rule fold_fill_slot_nth)
    show "j < length (replicate (length vs) (None :: 'a option))" using j by simp
    show "(j, vs ! j) \<in> set cs" using j assms by (simp add: in_set_enumerate_eq)
    show "\<forall>w. (j, w) \<in> set cs \<longrightarrow> w = vs ! j" using assms by (simp add: in_set_enumerate_eq)
  qed
  then show "fold fill_slot cs (replicate (length vs) None) ! j = map Some vs ! j"
    using j by simp
qed

lemma Promise_all_resolves:
  "first_rejection ps = None \<Longrightarrow> Promise_all settle ps = Inr (Some (fulfilled ps))"
  by (simp add: Promise_all_def Let_def fill_all_slots those_map_Some)

lemma Promise_all_rejects:
  "first_rejection ps = Some err \<Longrightarrow> Promise_all settle ps = Inl err"
  by (simp add: Promise_all_def)

lemma Promise_all_eq:
  "Promise_all settle ps =
     (case first_rejection ps of Some err \<Rightarrow> Inl err | None \<Rightarrow> Inr (Some (fulfilled ps)))"
  by (simp add: Promise_all_resolves Promise_all_rejects split: option.split)

subsection \<open>The callback and the handler, case by case\<close>

lemma enrich_not_null:
  "offer \<noteq> JNull \<Longrightarrow>
   enrich e aid offer =
     Inr (offer_request e aid offer, enrich_try e (offer_request e aid offer) offer)"
  by (simp add: enrich_def get_prop_def Let_def offer_request_def)

lemma fan_out_not_null:
  assumes "JNull \<notin> set offers"
  shows "first_rejection (map (map_sum id snd) (map (enrich e aid) offers)) = None"
    and "fulfilled (map (map_sum id snd) (map (enrich e aid) offers)) =
           map (\<lambda>offer. enrich_try e (offer_request e aid offer) offer) offers"
    and "map fst (fulfilled (map (enrich e aid) offers)) = map (offer_request e aid) offers"
  using assms by (induction offers) (simp_all add: enrich_not_null [OF not_sym])

lemma enrich_and_send_offers:
  assumes "res_json response = Inr data" and "data \<noteq> JNull"
    and "or_default (field data ''offers'') (JArr []) = JArr offers"
    and "JNull \<notin> set offers"
  shows "enrich_and_send e aid rq response =
    \<lparr>sent = Some \<lparr>code = 200,
                   body = success_body
                            (map (\<lambda>offer. enrich_try e (offer_request e aid offer) offer) offers)
                            (now e)\<rparr>,
     fetched = rq # map (offer_request e aid) offers, uncaught = None\<rparr>"
proof -
  have "Promise_all (settle_time e) (map (map_sum id snd) (map (enrich e aid) offers)) =
      Inr (Some (map (\<lambda>offer. enrich_try e (offer_request e aid offer) offer) offers))"
    using fan_out_not_null(1,2)[OF assms(4)] by (simp only: Promise_all_resolves)
  then show ?thesis
    using assms(1,2,3) fan_out_not_null(3)[OF assms(4), of e aid]
    by (simp add: enrich_and_send_def get_prop_def Let_def del: map_map)
qed

text \<open>An \<^verbatim>\<open>affiliate_id\<close> given once, as a string with \<^verbatim>\<open>{\<close> in it, is rejected.\<close>

lemma handler_rejects_brace:
  assumes "affiliate_id req = Some (QStr aid)" and "CHR ''{'' \<in> set aid"
  shows "handler e req =
    \<lparr>sent = Some \<lparr>code = 400,
                   body = JObj [(''error'', JStr ''Invalid request''),
                                (''message'', JStr ''Valid affiliate_id is required''),
                                (''details'',
                                   JObj [(''received'', JStr aid),
                                         (''expected'',
                                            JStr ''Non-empty string without special characters'')])]\<rparr>,
     fetched = [], uncaught = None\<rparr>"
proof -
  have "aid \<noteq> []" using assms(2) by auto
  then show ?thesis
    using assms by (simp add: handler_def str_includes_single invalid_affiliate_body_def)
qed

lemma handler_validated:
  assumes "affiliate_id req = Some (QStr aid)" and "aid \<noteq> []" and "CHR ''{'' \<notin> set aid"
    and "type req \<in> {None, Some (QStr []), Some (QStr ''top''), Some (QStr ''latest'')}"
  shows "handler e req =
    (case fetch e (list_request e aid (type req)) of
       Rejects err \<Rightarrow> internal_error e err [list_request e aid (type req)]
     | Resolves response \<Rightarrow>
         if \<not> ok response then
           \<lparr>sent = Some \<lparr>code = 502, body = bad_gateway_body (res_text response)\<rparr>,
            fetched = [list_request e aid (type req)], uncaught = None\<rparr>
         else enrich_and_send e aid (list_request e aid (type req)) response)"
  using assms by (auto simp: handler_def str_includes_single Let_def)

lemma handler_enriches:
  assumes "affiliate_id req = Some (QStr aid)" and "aid \<noteq> []" and "CHR ''{'' \<notin> set aid"
    and "type req \<in> {None, Some (QStr []), Some (QStr ''top''), Some (QStr ''latest'')}"
    and "fetch e (list_request e aid (type req)) = Resolves response" and "ok response"
    and "res_json response = Inr data" and "field data ''offers'' = Some (JArr offers)"
    and "JNull \<notin> set offers"
  shows "handler e req =
    \<lparr>sent = Some \<lparr>code = 200,
                   body = success_body
                            (map (\<lambda>offer. enrich_try e (offer_request e aid offer) offer) offers)
                            (now e)\<rparr>,
     fetched = list_request e aid (type req) # map (offer_request e aid) offers, uncaught = None\<rparr>"
proof -
  have "data \<noteq> JNull" using assms(8) by auto
  moreover have "or_default (field data ''offers'') (JArr []) = JArr offers"
    using assms(8) by (simp add: or_default_def)
  ultimately have "enrich_and_send e aid (list_request e aid (type req)) response =
    \<lparr>sent = Some \<lparr>code = 200,
                   body = success_body
                            (map (\<lambda>offer. enrich_try e (offer_request e aid offer) offer) offers)
                            (now e)\<rparr>,
     fetched = list_request e aid (type req) # map (offer_request e aid) offers, uncaught = None\<rparr>"
    using assms(7,9) by (intro enrich_and_send_offers)
  then show ?thesis
    using assms(5,6) by (simp add: handler_validated[OF assms(1-4)])
qed

subsection \<open>The requests the handler issues\<close>

text \<open>
  Once the request has passed validation, the list request is the first request issued,
  whatever happens afterwards.
\<close>

lemma enrich_and_send_fetched:
  "\<exists>rest. fetched (enrich_and_send e aid rq r) = rq # rest"
  by (auto simp: enrich_and_send_def internal_error_def Let_def
      split: sum.split option.split json.split)

lemma handler_fetches_list:
  assumes "affiliate_id req = Some (QStr aid)" and "aid \<noteq> []" and "CHR ''{'' \<notin> set aid"
    and "type req \<in> {None, Some (QStr []), Some (QStr ''top''), Some (QStr ''latest'')}"
  shows "\<exists>rest. fetched (handler e req) = list_request e aid (type req) # rest"
  using enrich_and_send_fetched [of e aid "list_request e aid (type req)"]
  by (simp add: handler_validated [OF assms] internal_error_def split: fetch_result.split)

lemma list_request_explicit:
  "list_request e aid ty =
     \<lparr>url = ''https://api.eflow.team/v1/networks/offers?affiliate_id='' @ aid @
             ''&limit=10&status=active&visibility=public'' @
             (if ty = Some (QStr ''top'') then ''&sort_by=payout&sort_direction=desc''
              else if ty = Some (QStr ''latest'') then
                ''&sort_by=created_at&sort_direction=desc''
              else ''''),
       headers = [(''X-Eflow-API-Key'', EFLOW_ADMIN_API_KEY e),
                  (''Content-Type'', Some ''application/json'')],
       timeout = 5000\<rparr>"
  by (simp add: list_request_def list_url_def api_headers_def Let_def)

subsection \<open>What the settling times and the clock can change\<close>

text \<open>
  The handler reads the settling times only inside \<^verbatim>\<open>Promise.all\<close>, whose result does
  not depend on them, and the clock only for the timestamp of the success envelope.
\<close>

lemma settle_time_unread:
  "list_request (e\<lparr>settle_time := st\<rparr>) = list_request e"
  "detail_request (e\<lparr>settle_time := st\<rparr>) = detail_request e"
  "enrich_try (e\<lparr>settle_time := st\<rparr>) = enrich_try e"
  "internal_error (e\<lparr>settle_time := st\<rparr>) = internal_error e"
  by (rule ext, (rule ext)?, (rule ext)?,
      simp add: list_request_def detail_request_def detail_url_def api_headers_def
        enrich_try_def internal_error_def internal_error_body_def)+

lemma settle_time_fields:
  "now (e\<lparr>settle_time := st\<rparr>) = now e"
  "fetch (e\<lparr>settle_time := st\<rparr>) = fetch e"
  by simp_all

lemma enrich_settle: "enrich (e\<lparr>settle_time := st\<rparr>) = enrich e"
  unfolding enrich_def settle_time_unread by (rule refl)

lemma enrich_and_send_settle:
  "enrich_and_send (e\<lparr>settle_time := st\<rparr>) = enrich_and_send e"
  unfolding enrich_and_send_def enrich_settle settle_time_unread settle_time_fields
    Promise_all_eq
  by (rule refl)

lemma handler_settle:
  "handler (e\<lparr>settle_time := st\<rparr>) req = handler e req"
  unfolding handler_def enrich_and_send_settle settle_time_unread settle_time_fields
  by (rule refl)

lemma now_unread:
  "list_request (e\<lparr>now := t\<rparr>) = list_request e"
  "detail_request (e\<lparr>now := t\<rparr>) = detail_request e"
  "enrich_try (e\<lparr>now := t\<rparr>) = enrich_try e"
  "internal_error (e\<lparr>now := t\<rparr>) = internal_error e"
  by (rule ext, (rule ext)?, (rule ext)?,
      simp add: list_request_def detail_request_def detail_url_def api_headers_def
        enrich_try_def internal_error_def internal_error_body_def)+

lemma now_fields:
  "now (e\<lparr>now := t\<rparr>) = t"
  "fetch (e\<lparr>now := t\<rparr>) = fetch e"
  "settle_time (e\<lparr>now := t\<rparr>) = settle_time e"
  by simp_all

lemma enrich_now: "enrich (e\<lparr>now := t\<rparr>) = enrich e"
  unfolding enrich_def now_unread by (rule refl)

lemma enrich_and_send_now:
  "fetched (enrich_and_send (e\<lparr>now := t\<rparr>) aid rq r) = fetched (enrich_and_send e aid rq r) \<and>
   uncaught (enrich_and_send (e\<lparr>now := t\<rparr>) aid rq r) = uncaught (enrich_and_send e aid rq r) \<and>
   (sent (enrich_and_send (e\<lparr>now := t\<rparr>) aid rq r) = sent (enrich_and_send e aid rq r) \<or>
    (\<exists>enrichedOffers.
       sent (enrich_and_send e aid rq r) =
         Some \<lparr>code = 200, body = success_body enrichedOffers (now e)\<rparr> \<and>
       sent (enrich_and_send (e\<lparr>now := t\<rparr>) aid rq r) =
         Some \<lparr>code = 200, body = success_body enrichedOffers t\<rparr>))"
  unfolding enrich_and_send_def enrich_now now_unread now_fields
  by (auto simp: Let_def split: sum.split option.split json.split)

lemma handler_now:
  "fetched (handler (e\<lparr>now := t\<rparr>) req) = fetched (handler e req) \<and>
   uncaught (handler (e\<lparr>now := t\<rparr>) req) = uncaught (handler e req) \<and>
   (sent (handler (e\<lparr>now := t\<rparr>) req) = sent (handler e req) \<or>
    (\<exists>enrichedOffers.
       sent (handler e req) = Some \<lparr>code = 200, body = success_body enrichedOffers (now e)\<rparr> \<and>
       sent (handler (e\<lparr>now := t\<rparr>) req) =
         Some \<lparr>code = 200, body = success_body enrichedOffers t\<rparr>))"
  unfolding handler_def now_unread now_fields
  using enrich_and_send_now [where e = e and t = t]
  by (simp add: Let_def split: option.split fetch_result.split sum.split)

subsection \<open>Properties of an object after an assignment\<close>

lemma map_of_update_other:
  "k \<noteq> k' \<Longrightarrow> map_of (AList.update k' v al) k = map_of al k"
  by (simp add: update_conv')

subsection \<open>The callback on an offer and a detail record that are objects\<close>





subsection \<open>The handler on the concrete upstream\<close>

lemma demo_env_fields:
  "fetch demo_env = demo_fetch" "now demo_env = ''2024-01-01T00:00:00.000Z''"
  "ToString demo_env = demo_ToString"
  by (simp_all add: demo_env_def)

lemma demo_list_fetch:
  "fetch demo_env (list_request demo_env ''af123'' ty) = Resolves demo_list"
  by (simp add: demo_env_fields list_request_def list_url_def demo_fetch_def starts_with_def
      Let_def)


lemma demo_list_ok: "ok demo_list"
  by (simp add: ok_def demo_list_def)

lemma demo_offer_requests:
  "url (offer_request demo_env ''af123'' demo_offer1) =
     ''https://api.eflow.team/v1/networks/offers/1?affiliate_id=af123''"
  "url (offer_request demo_env ''af123'' demo_offer2) =
     ''https://api.eflow.team/v1/networks/offers/2?affiliate_id=af123''"
  "url (offer_request demo_env ''af123'' demo_offer3) =
     ''https://api.eflow.team/v1/networks/offers/3?affiliate_id=af123''"
  by (simp_all add: offer_request_def detail_request_def detail_url_def demo_env_def
      demo_ToString_def demo_offer1_def demo_offer2_def demo_offer3_def decimal.simps)

lemma demo_detail_fetches:
  "fetch demo_env (offer_request demo_env ''af123'' demo_offer1) = Resolves demo_detail1"
  "fetch demo_env (offer_request demo_env ''af123'' demo_offer2) = Rejects FetchError"
  "fetch demo_env (offer_request demo_env ''af123'' demo_offer3) = Resolves demo_detail3"
  by (simp_all add: demo_env_fields demo_fetch_def demo_offer_requests)

lemma demo_enrich_try:
  "enrich_try demo_env (offer_request demo_env ''af123'' demo_offer1) demo_offer1 =
     JObj [(''network_offer_id'', JNum 1), (''name'', JStr ''Alpha''),
           (''default_payout'', JNum 12), (''currency'', JStr ''USD'')]"
  "enrich_try demo_env (offer_request demo_env ''af123'' demo_offer2) demo_offer2 =
     JObj [(''network_offer_id'', JNum 2), (''name'', JStr ''Beta'')]"
  "enrich_try demo_env (offer_request demo_env ''af123'' demo_offer3) demo_offer3 =
     JObj [(''network_offer_id'', JNum 3), (''name'', JStr ''Gamma''),
           (''currency'', JStr ''GBP''), (''default_payout'', JStr ''N/A'')]"
  by (simp_all add: enrich_try_def demo_detail_fetches ok_def demo_detail1_def demo_detail3_def
      get_prop_def)
    (simp_all add: merge_detail_def or_default_def demo_offer1_def demo_offer2_def demo_offer3_def)

lemma demo_handler_at:
  assumes "ty \<in> {None, Some (QStr []), Some (QStr ''top''), Some (QStr ''latest'')}"
  shows "handler (demo_env\<lparr>now := t\<rparr>) \<lparr>type = ty, affiliate_id = Some (QStr ''af123'')\<rparr> =
    \<lparr>sent = Some \<lparr>code = 200, body = success_body demo_enriched t\<rparr>,
     fetched = [list_request demo_env ''af123'' ty,
                offer_request demo_env ''af123'' demo_offer1,
                offer_request demo_env ''af123'' demo_offer2,
                offer_request demo_env ''af123'' demo_offer3], uncaught = None\<rparr>"
proof -
  let ?req = "\<lparr>type = ty, affiliate_id = Some (QStr ''af123'')\<rparr>"
  let ?e = "demo_env\<lparr>now := t\<rparr>"
  have "handler ?e ?req =
    \<lparr>sent = Some \<lparr>code = 200,
                   body = success_body
                            (map (\<lambda>offer. enrich_try ?e (offer_request ?e ''af123'' offer) offer)
                               [demo_offer1, demo_offer2, demo_offer3])
                            (now ?e)\<rparr>,
     fetched = list_request ?e ''af123'' (type ?req) #
               map (offer_request ?e ''af123'') [demo_offer1, demo_offer2, demo_offer3], uncaught = None\<rparr>"
  proof (rule handler_enriches)
    show "affiliate_id ?req = Some (QStr ''af123'')" by simp
    show "''af123'' \<noteq> []" by simp
    show "CHR ''{'' \<notin> set ''af123''" by simp
    show "type ?req \<in> {None, Some (QStr []), Some (QStr ''top''), Some (QStr ''latest'')}" using assms by simp
    show "fetch ?e (list_request ?e ''af123'' (type ?req)) = Resolves demo_list"
      by (simp add: now_unread demo_list_fetch)
    show "ok demo_list" by (rule demo_list_ok)
    show "res_json demo_list =
        Inr (JObj [(''offers'', JArr [demo_offer1, demo_offer2, demo_offer3])])"
      by (simp add: demo_list_def)
    show "field (JObj [(''offers'', JArr [demo_offer1, demo_offer2, demo_offer3])]) ''offers'' =
        Some (JArr [demo_offer1, demo_offer2, demo_offer3])" by simp
    show "JNull \<notin> set [demo_offer1, demo_offer2, demo_offer3]"
      by (simp add: demo_offer1_def demo_offer2_def demo_offer3_def)
  qed
  then show ?thesis
    by (simp add: now_unread offer_request_def)
      (simp add: offer_request_def [symmetric] demo_enrich_try demo_enriched_def)
qed

lemma demo_handler:
  assumes "ty \<in> {None, Some (QStr []), Some (QStr ''top''), Some (QStr ''latest'')}"
  shows "handler demo_env \<lparr>type = ty, affiliate_id = Some (QStr ''af123'')\<rparr> =
    \<lparr>sent = Some \<lparr>code = 200, body = success_body demo_enriched ''2024-01-01T00:00:00.000Z''\<rparr>,
     fetched = [list_request demo_env ''af123'' ty,
                offer_request demo_env ''af123'' demo_offer1,
                offer_request demo_env ''af123'' demo_offer2,
                offer_request demo_env ''af123'' demo_offer3], uncaught = None\<rparr>"
proof -
  have "demo_env\<lparr>now := ''2024-01-01T00:00:00.000Z''\<rparr> = demo_env"
    by (simp add: demo_env_def)
  then show ?thesis
    using demo_handler_at [OF assms, of "''2024-01-01T00:00:00.000Z''"] by simp
qed

lemma failing_upstream_not_ok:
  "300 \<le> st \<Longrightarrow>
   \<not> ok \<lparr>res_status = st, res_text = ''upstream exploded'', res_json = Inl SyntaxError\<rparr>"
  by (simp add: ok_def)

section \<open>The claims\<close>

text \<open>
  Below, a request passes validation when its \<^verbatim>\<open>affiliate_id\<close> is given once, as a
  non-empty string without \<^verbatim>\<open>{\<close>, and its \<^verbatim>\<open>type\<close> is absent or given once, as the empty
  string, \<^verbatim>\<open>top\<close> or \<^verbatim>\<open>latest\<close>.
\<close>



text \<open>
  Claim C2, as the code has it. When the detail lookup of an offer succeeds, the enriched
  offer has the keys of the offer and the two keys \<^verbatim>\<open>default_payout\<close> and \<^verbatim>\<open>currency\<close>,
  and no others. Every field of the offer other than these two is unchanged.
  \<^verbatim>\<open>default_payout\<close> is the detail's \<^verbatim>\<open>default_payout\<close>, and \<^verbatim>\<open>"N/A"\<close> if and only if
  that field is missing or falsy (\<^verbatim>\<open>null\<close>, \<^verbatim>\<open>false\<close>, \<^verbatim>\<open>0\<close> or the empty string);
  \<^verbatim>\<open>currency\<close> is the detail's \<^verbatim>\<open>currency\<close>, and the empty string if and only if that field
  is missing or falsy.
\<close>

theorem C2_merge:
  assumes "fetch e (offer_request e aid (JObj offer)) = Resolves detailRes"
    and "ok detailRes" and "res_json detailRes = Inr (JObj detail)"
  shows "\<exists>enriched.
     enrich e aid (JObj offer) = Inr (offer_request e aid (JObj offer), JObj enriched) \<and>
     map_of enriched ''default_payout'' =
       Some (case map_of detail ''default_payout'' of
               None \<Rightarrow> JStr ''N/A''
             | Some v \<Rightarrow> if truthy v then v else JStr ''N/A'') \<and>
     map_of enriched ''currency'' =
       Some (case map_of detail ''currency'' of
               None \<Rightarrow> JStr ''''
             | Some v \<Rightarrow> if truthy v then v else JStr '''') \<and>
     (\<forall>k. k \<noteq> ''default_payout'' \<and> k \<noteq> ''currency'' \<longrightarrow> map_of enriched k = map_of offer k) \<and>
     set (map fst enriched) = set (map fst offer) \<union> {''default_payout'', ''currency''}"
proof -
  let ?dp = "or_default (map_of detail ''default_payout'') (JStr ''N/A'')"
  let ?cur = "or_default (map_of detail ''currency'') (JStr '''')"
  let ?enriched = "AList.update ''currency'' ?cur (AList.update ''default_payout'' ?dp offer)"
  have "enrich_try e (offer_request e aid (JObj offer)) (JObj offer) = JObj ?enriched"
    using assms by (simp add: enrich_try_def get_prop_def merge_detail_def)
  then have "enrich e aid (JObj offer) = Inr (offer_request e aid (JObj offer), JObj ?enriched)"
    by (simp add: enrich_not_null)
  moreover have "map_of ?enriched ''default_payout'' =
       Some (case map_of detail ''default_payout'' of
               None \<Rightarrow> JStr ''N/A''
             | Some v \<Rightarrow> if truthy v then v else JStr ''N/A'')"
    by (simp add: update_conv' or_default_def)
  moreover have "map_of ?enriched ''currency'' =
       Some (case map_of detail ''currency'' of
               None \<Rightarrow> JStr ''''
             | Some v \<Rightarrow> if truthy v then v else JStr '''')"
    by (simp add: update_conv' or_default_def)
  moreover have "\<forall>k. k \<noteq> ''default_payout'' \<and> k \<noteq> ''currency'' \<longrightarrow>
      map_of ?enriched k = map_of offer k"
    by (simp add: map_of_update_other)
  moreover have "set (map fst ?enriched) = set (map fst offer) \<union> {''default_payout'', ''currency''}"
    by (auto simp: dom_update)
  ultimately show ?thesis by blast
qed

text \<open>Claim C2 on offer 1 of the concrete upstream.\<close>

theorem C2_merge_witness:
  "fetch demo_env
     (offer_request demo_env ''af123''
        (JObj [(''network_offer_id'', JNum 1), (''name'', JStr ''Alpha'')])) =
     Resolves demo_detail1 \<and>
   ok demo_detail1 \<and>
   res_json demo_detail1 = Inr (JObj [(''default_payout'', JNum 12), (''currency'', JStr ''USD'')]) \<and>
   (\<exists>enriched.
     enrich demo_env ''af123'' (JObj [(''network_offer_id'', JNum 1), (''name'', JStr ''Alpha'')]) =
       Inr (offer_request demo_env ''af123''
              (JObj [(''network_offer_id'', JNum 1), (''name'', JStr ''Alpha'')]),
            JObj enriched) \<and>
     map_of enriched ''default_payout'' = Some (JNum 12) \<and>
     map_of enriched ''currency'' = Some (JStr ''USD'') \<and>
     map_of enriched ''name'' = Some (JStr ''Alpha'') \<and>
     set (map fst enriched) = {''network_offer_id'', ''name'', ''default_payout'', ''currency''})"
proof -
  let ?offer = "[(''network_offer_id'', JNum 1), (''name'', JStr ''Alpha'')]"
  let ?detail = "[(''default_payout'', JNum 12), (''currency'', JStr ''USD'')]"
  have f: "fetch demo_env (offer_request demo_env ''af123'' (JObj ?offer)) = Resolves demo_detail1"
    using demo_detail_fetches(1) by (simp add: demo_offer1_def)
  have k: "ok demo_detail1" by (simp add: ok_def demo_detail1_def)
  have j: "res_json demo_detail1 = Inr (JObj ?detail)" by (simp add: demo_detail1_def)
  from C2_merge [OF f k j] obtain enriched where
    e: "enrich demo_env ''af123'' (JObj ?offer) =
          Inr (offer_request demo_env ''af123'' (JObj ?offer), JObj enriched)"
    and dp: "map_of enriched ''default_payout'' =
       Some (case map_of ?detail ''default_payout'' of
               None \<Rightarrow> JStr ''N/A''
             | Some v \<Rightarrow> if truthy v then v else JStr ''N/A'')"
    and cur: "map_of enriched ''currency'' =
       Some (case map_of ?detail ''currency'' of
               None \<Rightarrow> JStr ''''
             | Some v \<Rightarrow> if truthy v then v else JStr '''')"
    and other: "\<forall>k. k \<noteq> ''default_payout'' \<and> k \<noteq> ''currency'' \<longrightarrow>
        map_of enriched k = map_of ?offer k"
    and keys: "set (map fst enriched) = set (map fst ?offer) \<union> {''default_payout'', ''currency''}"
    by blast
  have "map_of enriched ''default_payout'' = Some (JNum 12)" using dp by simp
  moreover have "map_of enriched ''currency'' = Some (JStr ''USD'')" using cur by simp
  moreover have "map_of enriched ''name'' = Some (JStr ''Alpha'')"
  proof -
    have "map_of enriched ''name'' = map_of ?offer ''name''"
      using other by simp
    then show ?thesis by simp
  qed
  moreover have "set (map fst enriched) =
      {''network_offer_id'', ''name'', ''default_payout'', ''currency''}"
    using keys by auto
  ultimately show ?thesis using e f k j by blast
qed

text \<open>
  Claim C2 as stated fails on offer 3 of the concrete upstream. Its detail record has a
  \<^verbatim>\<open>default_payout\<close> field, with the value 0, and the enriched offer carries the default
  \<^verbatim>\<open>"N/A"\<close> all the same; and the \<^verbatim>\<open>currency\<close> field the offer had in the list is
  replaced by the detail's.
\<close>

theorem C2_counterexample:
  "fetch demo_env
     (offer_request demo_env ''af123''
        (JObj [(''network_offer_id'', JNum 3), (''name'', JStr ''Gamma''),
               (''currency'', JStr ''EUR'')])) =
     Resolves \<lparr>res_status = 200, res_text = ''detail of offer 3'',
               res_json = Inr (JObj [(''default_payout'', JNum 0), (''currency'', JStr ''GBP'')])\<rparr> \<and>
   enrich demo_env ''af123''
     (JObj [(''network_offer_id'', JNum 3), (''name'', JStr ''Gamma''),
            (''currency'', JStr ''EUR'')]) =
     Inr (offer_request demo_env ''af123''
            (JObj [(''network_offer_id'', JNum 3), (''name'', JStr ''Gamma''),
                   (''currency'', JStr ''EUR'')]),
          JObj [(''network_offer_id'', JNum 3), (''name'', JStr ''Gamma''),
                (''currency'', JStr ''GBP''), (''default_payout'', JStr ''N/A'')])"
proof -
  have "demo_offer3 \<noteq> JNull" by (simp add: demo_offer3_def)
  then have "fetch demo_env (offer_request demo_env ''af123'' demo_offer3) = Resolves demo_detail3 \<and>
    enrich demo_env ''af123'' demo_offer3 =
      Inr (offer_request demo_env ''af123'' demo_offer3,
           JObj [(''network_offer_id'', JNum 3), (''name'', JStr ''Gamma''),
                 (''currency'', JStr ''GBP''), (''default_payout'', JStr ''N/A'')])"
    by (simp add: enrich_not_null demo_enrich_try demo_detail_fetches)
  then show ?thesis
    by (simp add: demo_offer3_def demo_detail3_def)
qed




text \<open>
  Claim C4, as the code has it. When the upstream answers the list request with a status
  that is not a success, the handler replies with status 502 and the body
  \<^verbatim>\<open>{error: "Bad Gateway", message, details}\<close> whose \<^verbatim>\<open>details\<close> is the raw upstream body.
  The list request is the only request issued: nothing is retried and no detail lookup is
  made. The upstream status itself is not part of the reply.
\<close>

theorem C4_bad_gateway:
  assumes "affiliate_id req = Some (QStr aid)" and "aid \<noteq> []" and "CHR ''{'' \<notin> set aid"
    and "type req \<in> {None, Some (QStr []), Some (QStr ''top''), Some (QStr ''latest'')}"
    and "fetch e (list_request e aid (type req)) = Resolves response"
    and "\<not> ok response"
  shows "handler e req =
    \<lparr>sent = Some \<lparr>code = 502,
                   body = JObj [(''error'', JStr ''Bad Gateway''),
                                (''message'', JStr ''Failed to fetch offers from Everflow''),
                                (''details'', JStr (res_text response))]\<rparr>,
     fetched = [list_request e aid (type req)], uncaught = None\<rparr>"
  using assms(5,6) by (simp add: handler_validated [OF assms(1-4)] bad_gateway_body_def)

text \<open>Claim C4 on an upstream that answers every request with status 500.\<close>

theorem C4_bad_gateway_witness:
  "affiliate_id demo_req = Some (QStr ''af123'') \<and> ''af123'' \<noteq> [] \<and> CHR ''{'' \<notin> set ''af123'' \<and>
   type demo_req \<in> {None, Some (QStr []), Some (QStr ''top''), Some (QStr ''latest'')} \<and>
   fetch (demo_env\<lparr>fetch := failing_upstream 500\<rparr>)
     (list_request (demo_env\<lparr>fetch := failing_upstream 500\<rparr>) ''af123'' (type demo_req)) =
     Resolves \<lparr>res_status = 500, res_text = ''upstream exploded'', res_json = Inl SyntaxError\<rparr> \<and>
   \<not> ok \<lparr>res_status = 500, res_text = ''upstream exploded'', res_json = Inl SyntaxError\<rparr> \<and>
   handler (demo_env\<lparr>fetch := failing_upstream 500\<rparr>) demo_req =
    \<lparr>sent = Some \<lparr>code = 502,
                   body = JObj [(''error'', JStr ''Bad Gateway''),
                                (''message'', JStr ''Failed to fetch offers from Everflow''),
                                (''details'', JStr ''upstream exploded'')]\<rparr>,
     fetched = [list_request (demo_env\<lparr>fetch := failing_upstream 500\<rparr>) ''af123'' (type demo_req)], uncaught = None\<rparr>"
proof -
  let ?e = "demo_env\<lparr>fetch := failing_upstream 500\<rparr>"
  let ?r = "\<lparr>res_status = 500, res_text = ''upstream exploded'', res_json = Inl SyntaxError\<rparr>"
  have h: "affiliate_id demo_req = Some (QStr ''af123'')" "''af123'' \<noteq> []" "CHR ''{'' \<notin> set ''af123''"
    "type demo_req \<in> {None, Some (QStr []), Some (QStr ''top''), Some (QStr ''latest'')}"
    by (simp_all add: demo_req_def)
  have f: "fetch ?e (list_request ?e ''af123'' (type demo_req)) = Resolves ?r"
    by (simp add: failing_upstream_def)
  have n: "\<not> ok ?r" by (simp add: failing_upstream_not_ok)
  show ?thesis
    using h f n C4_bad_gateway [OF h f n] by simp
qed

text \<open>
  Claim C4 as stated has the reply carry the upstream status. Two upstreams that fail with
  the same body and the statuses 500 and 503 get the very same reply, so the status
  cannot be read from it.
\<close>

theorem C4_counterexample:
  "handler (demo_env\<lparr>fetch := failing_upstream 500\<rparr>) demo_req =
     handler (demo_env\<lparr>fetch := failing_upstream 503\<rparr>) demo_req \<and>
   sent (handler (demo_env\<lparr>fetch := failing_upstream 500\<rparr>) demo_req) =
     Some \<lparr>code = 502,
           body = JObj [(''error'', JStr ''Bad Gateway''),
                        (''message'', JStr ''Failed to fetch offers from Everflow''),
                        (''details'', JStr ''upstream exploded'')]\<rparr>"
proof -
  have h: "affiliate_id demo_req = Some (QStr ''af123'')" "''af123'' \<noteq> []" "CHR ''{'' \<notin> set ''af123''"
    "type demo_req \<in> {None, Some (QStr []), Some (QStr ''top''), Some (QStr ''latest'')}"
    by (simp_all add: demo_req_def)
  have "handler (demo_env\<lparr>fetch := failing_upstream st\<rparr>) demo_req =
    \<lparr>sent = Some \<lparr>code = 502, body = bad_gateway_body ''upstream exploded''\<rparr>,
     fetched = [list_request demo_env ''af123'' (type demo_req)], uncaught = None\<rparr>" if "300 \<le> st" for st
    using that
    by (simp add: handler_validated [OF h] failing_upstream_def ok_def list_request_def api_headers_def)
  from this [of 500] this [of 503] show ?thesis
    by (simp add: bad_gateway_body_def)
qed

text \<open>
  Claim C5. A request whose query has no \<^verbatim>\<open>affiliate_id\<close> is answered with status 200
  and the static operational acknowledgment, whatever \<^verbatim>\<open>type\<close> is, and no request is
  issued to the upstream.
\<close>

theorem C5_status_probe:
  assumes "affiliate_id req = None"
  shows "handler e req =
    \<lparr>sent = Some \<lparr>code = 200,
                   body = JObj [(''status'', JStr ''success''),
                                (''message'', JStr ''Partner dashboard backend is operational'')]\<rparr>,
     fetched = [], uncaught = None\<rparr>"
  using assms by (simp add: handler_def status_probe_def operational_body_def)

text \<open>Claim C5 on a request with a \<^verbatim>\<open>type\<close> that would otherwise be rejected.\<close>

theorem C5_status_probe_witness:
  "affiliate_id \<lparr>type = Some (QStr ''bogus''), affiliate_id = None\<rparr> = None \<and>
   handler demo_env \<lparr>type = Some (QStr ''bogus''), affiliate_id = None\<rparr> =
    \<lparr>sent = Some \<lparr>code = 200,
                   body = JObj [(''status'', JStr ''success''),
                                (''message'', JStr ''Partner dashboard backend is operational'')]\<rparr>,
     fetched = [], uncaught = None\<rparr>"
  using C5_status_probe [of "\<lparr>type = Some (QStr ''bogus''), affiliate_id = None\<rparr>" demo_env]
  by simp

text \<open>
  Claim C6, as the code has it. When the \<^verbatim>\<open>affiliate_id\<close> is a non-empty string without
  \<^verbatim>\<open>{\<close>, every non-empty \<^verbatim>\<open>type\<close> other than \<^verbatim>\<open>top\<close> and \<^verbatim>\<open>latest\<close> is answered with
  status 400 and the invalid-type message, and no request is issued to the upstream. An
  empty \<^verbatim>\<open>type\<close> is treated as an absent one.
\<close>

theorem C6_invalid_type:
  assumes "affiliate_id req = Some (QStr aid)" and "aid \<noteq> []" and "CHR ''{'' \<notin> set aid"
    and "type req = Some (QStr ty)" and "ty \<noteq> []" and "ty \<noteq> ''top''" and "ty \<noteq> ''latest''"
  shows \<open>handler e req =
    \<lparr>sent = Some \<lparr>code = 400,
                   body = JObj [(''error'', JStr ''Invalid request''),
                                (''message'',
                                   JStr ''Type must be either "top" or "latest" if provided'')]\<rparr>,
     fetched = [], uncaught = None\<rparr>\<close>
  using assms by (simp add: handler_def str_includes_single invalid_type_body_def)

text \<open>Claim C6 on the type \<^verbatim>\<open>newest\<close>.\<close>

theorem C6_invalid_type_witness:
  \<open>affiliate_id \<lparr>type = Some (QStr ''newest''), affiliate_id = Some (QStr ''af123'')\<rparr> = Some (QStr ''af123'') \<and>
   ''af123'' \<noteq> [] \<and> CHR ''{'' \<notin> set ''af123'' \<and>
   type \<lparr>type = Some (QStr ''newest''), affiliate_id = Some (QStr ''af123'')\<rparr> = Some (QStr ''newest'') \<and>
   ''newest'' \<noteq> [] \<and> ''newest'' \<noteq> ''top'' \<and> ''newest'' \<noteq> ''latest'' \<and>
   handler demo_env \<lparr>type = Some (QStr ''newest''), affiliate_id = Some (QStr ''af123'')\<rparr> =
    \<lparr>sent = Some \<lparr>code = 400,
                   body = JObj [(''error'', JStr ''Invalid request''),
                                (''message'',
                                   JStr ''Type must be either "top" or "latest" if provided'')]\<rparr>,
     fetched = [], uncaught = None\<rparr>\<close>
  using C6_invalid_type
    [where req = "\<lparr>type = Some (QStr ''newest''), affiliate_id = Some (QStr ''af123'')\<rparr>"
       and aid = "''af123''" and ty = "''newest''" and e = demo_env]
  by simp

text \<open>
  Claim C6 as stated fails on the empty \<^verbatim>\<open>type\<close>: it is none of absent, \<^verbatim>\<open>top\<close> and
  \<^verbatim>\<open>latest\<close>, and the request is served with status 200.
\<close>

theorem C6_counterexample:
  "Some (QStr '''') \<notin> {None, Some (QStr ''top''), Some (QStr ''latest'')} \<and>
   sent (handler demo_env \<lparr>type = Some (QStr ''''), affiliate_id = Some (QStr ''af123'')\<rparr>) =
     Some \<lparr>code = 200, body = success_body demo_enriched ''2024-01-01T00:00:00.000Z''\<rparr>"
  by (simp add: demo_handler)

text \<open>
  Claim C7. A request whose \<^verbatim>\<open>affiliate_id\<close> contains the character \<^verbatim>\<open>{\<close> is to be
  answered with status 400 and no request to the upstream. The handler does so for an
  \<^verbatim>\<open>affiliate_id\<close> given once (the lemma \<open>handler_rejects_brace\<close> above), and not for
  one given twice or in bracket syntax. On the concrete upstream,
  \<^verbatim>\<open>?affiliate_id=x%7B&affiliate_id=y\<close> passes the check, since no element of the array is
  the string \<^verbatim>\<open>{\<close>, and the list request is issued with \<^verbatim>\<open>affiliate_id=x{,y\<close>; and for
  \<^verbatim>\<open>?affiliate_id[a]=%7B\<close> the check itself throws, outside every \<^verbatim>\<open>try\<close>, and the handler
  sends no reply.
\<close>

theorem C7_brace_passes_validation:
  "handler demo_env \<lparr>type = None, affiliate_id = Some (QArr [QStr ''x{'', QStr ''y''])\<rparr> =
     \<lparr>sent = Some \<lparr>code = 502,
                    body = JObj [(''error'', JStr ''Bad Gateway''),
                                 (''message'', JStr ''Failed to fetch offers from Everflow''),
                                 (''details'', JStr ''upstream exploded'')]\<rparr>,
      fetched =
        [\<lparr>url = ''https://api.eflow.team/v1/networks/offers?affiliate_id=x{,y&limit=10&status=active&visibility=public'',
          headers = [(''X-Eflow-API-Key'', Some ''secret''),
                     (''Content-Type'', Some ''application/json'')],
          timeout = 5000\<rparr>],
      uncaught = None\<rparr> \<and>
   handler demo_env \<lparr>type = None, affiliate_id = Some (QObj [(''a'', QStr ''{'')])\<rparr> =
     \<lparr>sent = None, fetched = [], uncaught = Some TypeError\<rparr>"
proof -
  have "handler demo_env \<lparr>type = None, affiliate_id = Some (QObj [(''a'', QStr ''{'')])\<rparr> =
     \<lparr>sent = None, fetched = [], uncaught = Some TypeError\<rparr>"
    by (simp add: handler_def)
  moreover have "fetch demo_env (list_request demo_env ''x{,y'' None) =
      failing_upstream 500 (list_request demo_env ''x{,y'' None)"
    by (simp add: demo_env_fields demo_fetch_def list_request_def list_url_def starts_with_def)
  then have "handler demo_env \<lparr>type = None, affiliate_id = Some (QArr [QStr ''x{'', QStr ''y''])\<rparr> =
     \<lparr>sent = Some \<lparr>code = 502, body = bad_gateway_body ''upstream exploded''\<rparr>,
      fetched = [list_request demo_env ''x{,y'' None], uncaught = None\<rparr>"
    by (simp add: handler_def failing_upstream_def ok_def)
  ultimately show ?thesis
    by (simp add: bad_gateway_body_def list_request_explicit) (simp add: demo_env_def)
qed

text \<open>
  Claim C8. For a request that has passed validation, the first request issued is the
  list request. Its URL consists of the fixed endpoint, the supplied \<^verbatim>\<open>affiliate_id\<close>, the
  fixed parameters \<^verbatim>\<open>limit=10\<close>, \<^verbatim>\<open>status=active\<close> and \<^verbatim>\<open>visibility=public\<close>, and then
  \<^verbatim>\<open>sort_by=payout&sort_direction=desc\<close> for the type \<^verbatim>\<open>top\<close>,
  \<^verbatim>\<open>sort_by=created_at&sort_direction=desc\<close> for the type \<^verbatim>\<open>latest\<close>, and nothing
  otherwise.
\<close>

theorem C8_list_url:
  assumes "affiliate_id req = Some (QStr aid)" and "aid \<noteq> []" and "CHR ''{'' \<notin> set aid"
    and "type req \<in> {None, Some (QStr []), Some (QStr ''top''), Some (QStr ''latest'')}"
  shows "\<exists>rest. fetched (handler e req) =
     \<lparr>url = ''https://api.eflow.team/v1/networks/offers?affiliate_id='' @ aid @
             ''&limit=10&status=active&visibility=public'' @
             (if type req = Some (QStr ''top'') then ''&sort_by=payout&sort_direction=desc''
              else if type req = Some (QStr ''latest'') then
                ''&sort_by=created_at&sort_direction=desc''
              else ''''),
       headers = [(''X-Eflow-API-Key'', EFLOW_ADMIN_API_KEY e),
                  (''Content-Type'', Some ''application/json'')],
       timeout = 5000\<rparr> # rest"
  using handler_fetches_list [OF assms, of e]
  unfolding list_request_explicit .

text \<open>Claim C8 on the request \<^verbatim>\<open>affiliate_id=af123&type=top\<close>.\<close>

theorem C8_list_url_witness:
  "affiliate_id demo_req = Some (QStr ''af123'') \<and> ''af123'' \<noteq> [] \<and> CHR ''{'' \<notin> set ''af123'' \<and>
   type demo_req \<in> {None, Some (QStr []), Some (QStr ''top''), Some (QStr ''latest'')} \<and>
   (\<exists>rest. fetched (handler demo_env demo_req) =
     \<lparr>url = ''https://api.eflow.team/v1/networks/offers?affiliate_id=af123&limit=10&status=active&visibility=public&sort_by=payout&sort_direction=desc'',
       headers = [(''X-Eflow-API-Key'', Some ''secret''),
                  (''Content-Type'', Some ''application/json'')],
       timeout = 5000\<rparr> # rest)"
proof -
  have h: "affiliate_id demo_req = Some (QStr ''af123'')" "''af123'' \<noteq> []" "CHR ''{'' \<notin> set ''af123''"
    "type demo_req \<in> {None, Some (QStr []), Some (QStr ''top''), Some (QStr ''latest'')}"
    by (simp_all add: demo_req_def)
  have "EFLOW_ADMIN_API_KEY demo_env = Some ''secret''" "type demo_req = Some (QStr ''top'')"
    by (simp_all add: demo_env_def demo_req_def)
  then show ?thesis
    using h C8_list_url [OF h, of demo_env] by simp
qed

text \<open>
  Claim C9. Take two executions of the handler on the same request against the same
  upstream and configuration, at any two clock readings and with the detail lookups
  settling in any two orders. They issue the same requests, and they send the same reply
  or two success envelopes of the same structure: the same status, the same \<^verbatim>\<open>offers\<close>
  array, the same \<^verbatim>\<open>count\<close>, \<^verbatim>\<open>source\<close> and \<^verbatim>\<open>enrichment\<close>, and in
  \<^verbatim>\<open>data._metadata.timestamp\<close> the clock reading of each execution.
\<close>

theorem C9_same_reply_up_to_timestamp:
  "fetched (handler (e\<lparr>now := t, settle_time := st\<rparr>) req) = fetched (handler e req) \<and>
   uncaught (handler (e\<lparr>now := t, settle_time := st\<rparr>) req) = uncaught (handler e req) \<and>
   (sent (handler (e\<lparr>now := t, settle_time := st\<rparr>) req) = sent (handler e req) \<or>
    (\<exists>enrichedOffers.
       sent (handler e req) =
         Some \<lparr>code = 200,
               body = JObj [(''status'', JStr ''success''),
                            (''data'',
                               JObj [(''offers'', JArr enrichedOffers),
                                     (''count'', JNum (of_nat (length enrichedOffers))),
                                     (''_metadata'',
                                        JObj [(''source'', JStr ''Everflow API''),
                                              (''enrichment'', JStr ''payout_and_currency''),
                                              (''timestamp'', JStr (now e))])])]\<rparr> \<and>
       sent (handler (e\<lparr>now := t, settle_time := st\<rparr>) req) =
         Some \<lparr>code = 200,
               body = JObj [(''status'', JStr ''success''),
                            (''data'',
                               JObj [(''offers'', JArr enrichedOffers),
                                     (''count'', JNum (of_nat (length enrichedOffers))),
                                     (''_metadata'',
                                        JObj [(''source'', JStr ''Everflow API''),
                                              (''enrichment'', JStr ''payout_and_currency''),
                                              (''timestamp'', JStr t)])])]\<rparr>))"
proof -
  have "handler (e\<lparr>now := t, settle_time := st\<rparr>) req = handler (e\<lparr>now := t\<rparr>) req"
    using handler_settle [where e = "e\<lparr>now := t\<rparr>" and st = st and req = req] by simp
  then show ?thesis
    using handler_now [where e = e and t = t and req = req]
    unfolding success_body_def by simp
qed

text \<open>Claim C9 on the concrete upstream, five seconds later and with another settling order.\<close>

theorem C9_same_reply_up_to_timestamp_witness:
  "fetched (handler (demo_env\<lparr>now := ''2024-01-01T00:00:05.000Z'', settle_time := id\<rparr>) demo_req) =
     fetched (handler demo_env demo_req) \<and>
   uncaught (handler (demo_env\<lparr>now := ''2024-01-01T00:00:05.000Z'', settle_time := id\<rparr>) demo_req) =
     uncaught (handler demo_env demo_req) \<and>
   (sent (handler (demo_env\<lparr>now := ''2024-01-01T00:00:05.000Z'', settle_time := id\<rparr>) demo_req) =
      sent (handler demo_env demo_req) \<or>
    (\<exists>enrichedOffers.
       sent (handler demo_env demo_req) =
         Some \<lparr>code = 200,
               body = JObj [(''status'', JStr ''success''),
                            (''data'',
                               JObj [(''offers'', JArr enrichedOffers),
                                     (''count'', JNum (of_nat (length enrichedOffers))),
                                     (''_metadata'',
                                        JObj [(''source'', JStr ''Everflow API''),
                                              (''enrichment'', JStr ''payout_and_currency''),
                                              (''timestamp'', JStr (now demo_env))])])]\<rparr> \<and>
       sent (handler (demo_env\<lparr>now := ''2024-01-01T00:00:05.000Z'', settle_time := id\<rparr>) demo_req) =
         Some \<lparr>code = 200,
               body = JObj [(''status'', JStr ''success''),
                            (''data'',
                               JObj [(''offers'', JArr enrichedOffers),
                                     (''count'', JNum (of_nat (length enrichedOffers))),
                                     (''_metadata'',
                                        JObj [(''source'', JStr ''Everflow API''),
                                              (''enrichment'', JStr ''payout_and_currency''),
                                              (''timestamp'',
                                                 JStr ''2024-01-01T00:00:05.000Z'')])])]\<rparr>))"
  by (rule C9_same_reply_up_to_timestamp)

text \<open>
  Claim C10. A request whose \<^verbatim>\<open>affiliate_id\<close> is present but empty takes the status-probe
  path: it is answered with status 200 and the operational acknowledgment, not with a
  validation error, and no request is issued to the upstream.
\<close>

theorem C10_empty_affiliate_id:
  assumes "affiliate_id req = Some (QStr [])"
  shows "handler e req =
    \<lparr>sent = Some \<lparr>code = 200,
                   body = JObj [(''status'', JStr ''success''),
                                (''message'', JStr ''Partner dashboard backend is operational'')]\<rparr>,
     fetched = [], uncaught = None\<rparr>"
  using assms by (simp add: handler_def status_probe_def operational_body_def)

text \<open>Claim C10 on a request with an empty \<^verbatim>\<open>affiliate_id\<close> and a valid \<^verbatim>\<open>type\<close>.\<close>

theorem C10_empty_affiliate_id_witness:
  "affiliate_id \<lparr>type = Some (QStr ''top''), affiliate_id = Some (QStr '''')\<rparr> = Some (QStr []) \<and>
   handler demo_env \<lparr>type = Some (QStr ''top''), affiliate_id = Some (QStr '''')\<rparr> =
    \<lparr>sent = Some \<lparr>code = 200,
                   body = JObj [(''status'', JStr ''success''),
                                (''message'', JStr ''Partner dashboard backend is operational'')]\<rparr>,
     fetched = [], uncaught = None\<rparr>"
  using C10_empty_affiliate_id [of "\<lparr>type = Some (QStr ''top''), affiliate_id = Some (QStr '''')\<rparr>" demo_env]
  by simp

end
